theory Spec2Isabelle
  imports Main "HOL-Library.Sublist"
begin

section \<open>fibernewrelic: a New Relic middleware for fiber\<close>

text \<open>
  The package has one source file, \<^verbatim>\<open>fibernewrelic/fiber.go\<close>. It exports a configuration
  struct, the constructor \<^verbatim>\<open>New\<close> that returns the middleware, \<^verbatim>\<open>FromContext\<close>, and
  \<^verbatim>\<open>DefaultErrorStatusCodeHandler\<close>; \<^verbatim>\<open>createTransactionName\<close> and \<^verbatim>\<open>transport\<close> are
  its private helpers. Everything else belongs to the two libraries it glues together
  (fiber and the New Relic agent); their objects appear here as plain data, and the calls
  the middleware makes on them are recorded in a chronological log.
\<close>

subsection \<open>Go values\<close>

text \<open>
  A non-nil value of Go's interface type \<^verbatim>\<open>error\<close>, by dynamic type:
  a \<^verbatim>\<open>*fiber.Error\<close> (fields \<^verbatim>\<open>Code\<close> and \<^verbatim>\<open>Message\<close>), an error that is only a
  message (\<^verbatim>\<open>errors.New\<close>, or \<^verbatim>\<open>fmt.Errorf\<close> without \<^verbatim>\<open>%w\<close>), and an error that
  wraps another one (\<^verbatim>\<open>fmt.Errorf\<close> with \<^verbatim>\<open>%w\<close>: the text before the verb and the
  wrapped error). An interface value is not nil as soon as it has a dynamic type, so a nil
  pointer of type \<^verbatim>\<open>*fiber.Error\<close> stored in an \<^verbatim>\<open>error\<close> is an error too:
  \<open>NilFiberError\<close>, which a handler returns with \<^verbatim>\<open>var e *fiber.Error; return e\<close>. The
  nil error is \<open>None\<close> of \<open>go_error option\<close>.
\<close>

datatype go_error =
  FiberError int string
| NilFiberError
| ErrorString string
| WrapError string go_error

text \<open>
  What a call leaves behind: it returns a value, or it panics with a value. The run-time
  panics the package can meet are the call of a nil function and the read of a field
  through a nil pointer.
\<close>

datatype panic_value =
  PanicError go_error
| NilFuncCall
| NilDereference

datatype 'a go_result =
  Returns 'a
| Panics panic_value

subsection \<open>context.Context and the agent's context helpers\<close>

text \<open>
  A \<^verbatim>\<open>context.Context\<close> is an immutable chain: \<^verbatim>\<open>context.Background()\<close>, extended by
  \<^verbatim>\<open>context.WithValue(parent, key, val)\<close>; \<^verbatim>\<open>ctx.Value(key)\<close> finds the value of the
  nearest link with that key. The agent keeps its transaction under a key of its own
  (\<^verbatim>\<open>internal.TransactionContextKey\<close>, which no other package can name); every other key
  is an \<open>OtherKey\<close>.
\<close>

datatype transaction = Transaction nat

datatype context_key = TransactionContextKey | OtherKey string

datatype context_value = TransactionValue transaction | OtherValue string

datatype go_context =
  Background
| WithValue go_context context_key context_value

fun Value :: "go_context \<Rightarrow> context_key \<Rightarrow> context_value option" where
  "Value Background k = None"
| "Value (WithValue parent k' v) k = (if k = k' then Some v else Value parent k)"

text \<open>The keys and the values a context holds, nearest link first.\<close>

fun context_keys :: "go_context \<Rightarrow> context_key list" where
  "context_keys Background = []"
| "context_keys (WithValue parent k v) = k # context_keys parent"

fun context_values :: "go_context \<Rightarrow> context_value list" where
  "context_values Background = []"
| "context_values (WithValue parent k v) = v # context_values parent"

text \<open>
  Modelled from the spec: the agent's context helpers \<^verbatim>\<open>newrelic.NewContext\<close> and
  \<^verbatim>\<open>newrelic.FromContext\<close>, whose code is in the agent and not in this package. The
  spec calls them context embedding and extraction helpers over a request-scoped
  key-value store: the middleware publishes a reference to the transaction, and a
  lookup returns the associated transaction if one was published, or nil otherwise (so
  does the comment on this package's own \<^verbatim>\<open>FromContext\<close>). \<open>NewContext\<close> stores the
  transaction under the agent's key; \<open>newrelic_FromContext\<close> reads that key.
\<close>

definition NewContext :: "go_context \<Rightarrow> transaction \<Rightarrow> go_context" where
  "NewContext ctx txn = WithValue ctx TransactionContextKey (TransactionValue txn)"

definition newrelic_FromContext :: "go_context \<Rightarrow> transaction option" where
  "newrelic_FromContext ctx =
     (case Value ctx TransactionContextKey of
        Some (TransactionValue txn) \<Rightarrow> Some txn
      | _ \<Rightarrow> None)"

subsection \<open>The fiber request context\<close>

text \<open>
  Of a \<^verbatim>\<open>*fiber.Ctx\<close> the middleware reads the fields below, each named after the accessor
  that returns it, and it writes the user context. The downstream handler may change any
  of them, the response status code above all.
\<close>

record fiber_ctx =
  Hostname :: string                \<comment> \<open>\<^verbatim>\<open>c.Hostname()\<close>\<close>
  Method :: string                  \<comment> \<open>\<^verbatim>\<open>c.Method()\<close>\<close>
  Header_Method :: string           \<comment> \<open>\<^verbatim>\<open>c.Request().Header.Method()\<close>\<close>
  URI_Scheme :: string              \<comment> \<open>\<^verbatim>\<open>c.Request().URI().Scheme()\<close>\<close>
  URI_Path :: string                \<comment> \<open>\<^verbatim>\<open>c.Request().URI().Path()\<close>\<close>
  URI_QueryString :: string         \<comment> \<open>\<^verbatim>\<open>c.Request().URI().QueryString()\<close>\<close>
  Response_StatusCode :: int        \<comment> \<open>\<^verbatim>\<open>c.Context().Response.StatusCode()\<close>\<close>
  UserContext :: go_context         \<comment> \<open>\<^verbatim>\<open>c.UserContext()\<close>\<close>

definition SetUserContext :: "go_context \<Rightarrow> fiber_ctx \<Rightarrow> fiber_ctx" where
  "SetUserContext ctx c = c\<lparr>UserContext := ctx\<rparr>"

text \<open>
  \<^verbatim>\<open>c.Next()\<close> runs the rest of the handler chain on the same \<^verbatim>\<open>*fiber.Ctx\<close>: it
  returns an error or nil, or panics, and leaves the context as the chain changed it.
\<close>

type_synonym next_handler = "fiber_ctx \<Rightarrow> go_error option go_result \<times> fiber_ctx"

subsection \<open>The pure helpers of fiber.go\<close>

text \<open>\<^verbatim>\<open>strings.HasPrefix(s, prefix)\<close>:
  \<^verbatim>\<open>len(s) >= len(prefix) && s[:len(prefix)] == prefix\<close>.\<close>

definition HasPrefix :: "string \<Rightarrow> string \<Rightarrow> bool" where
  "HasPrefix s pre = (length pre \<le> length s \<and> take (length pre) s = pre)"

datatype TransportType = TransportUnknown | TransportHTTP | TransportHTTPS

definition transport :: "string \<Rightarrow> TransportType" where
  "transport schema =
     (if HasPrefix schema ''https'' then TransportHTTPS
      else if HasPrefix schema ''http'' then TransportHTTP
      else TransportUnknown)"

text \<open>\<^verbatim>\<open>fmt.Sprintf("%s %s", method, path)\<close>\<close>

definition createTransactionName :: "fiber_ctx \<Rightarrow> string" where
  "createTransactionName c = Header_Method c @ '' '' @ URI_Path c"

text \<open>
  The type assertion \<^verbatim>\<open>err.(*fiber.Error)\<close> looks at the dynamic type of \<^verbatim>\<open>err\<close> only.
  It succeeds on a nil \<^verbatim>\<open>*fiber.Error\<close> as well, and \<^verbatim>\<open>fiberErr.Code\<close> then reads
  through the nil pointer.
\<close>

fun DefaultErrorStatusCodeHandler :: "fiber_ctx \<Rightarrow> go_error \<Rightarrow> int go_result" where
  "DefaultErrorStatusCodeHandler c (FiberError code message) = Returns code"
| "DefaultErrorStatusCodeHandler c NilFiberError = Panics NilDereference"
| "DefaultErrorStatusCodeHandler c err = Returns (Response_StatusCode c)"

definition FromContext :: "fiber_ctx \<Rightarrow> transaction option" where
  "FromContext c = newrelic_FromContext (UserContext c)"

subsection \<open>The New Relic agent, as the middleware sees it\<close>

text \<open>
  A \<^verbatim>\<open>*newrelic.Application\<close> is an opaque handle. \<^verbatim>\<open>newrelic.WebRequest\<close> and
  \<^verbatim>\<open>url.URL\<close> carry the fields the middleware fills in.
\<close>

datatype newrelic_Application = App nat

record URL =
  URL_Host :: string
  URL_Scheme :: string
  URL_Path :: string
  URL_RawQuery :: string

record WebRequest =
  WebRequest_Host :: string
  WebRequest_Method :: string
  WebRequest_Transport :: TransportType
  WebRequest_URL :: URL

text \<open>
  The calls one run of the middleware makes on its collaborators, each with its
  arguments: \<^verbatim>\<open>app.StartTransaction(name)\<close> with the transaction it returned, the methods
  of the transaction, and \<^verbatim>\<open>c.Next()\<close> with the context it was given and what it left
  behind. \<^verbatim>\<open>txn.SetWebResponse(nil).WriteHeader(code)\<close> is two calls.
\<close>

datatype call =
  is_StartTransaction: StartTransactionCall newrelic_Application string transaction
| is_SetWebRequest: SetWebRequestCall transaction WebRequest
| is_Next: NextCall fiber_ctx "go_error option go_result"
| is_NoticeError: NoticeErrorCall transaction go_error
| is_SetWebResponse: SetWebResponseCall transaction
| is_WriteHeader: WriteHeaderCall transaction int
| is_End: EndCall transaction

text \<open>
  The state a request runs in: the \<^verbatim>\<open>*fiber.Ctx\<close>, the calls made so far in
  chronological order, and the number of transactions the agent has started (the
  next transaction is a new object).
\<close>

record state =
  fiber :: fiber_ctx
  calls :: "call list"
  started :: nat

definition record_call :: "call \<Rightarrow> state \<Rightarrow> state" where
  "record_call x s = s\<lparr>calls := calls s @ [x]\<rparr>"

definition StartTransaction :: "newrelic_Application \<Rightarrow> string \<Rightarrow> state \<Rightarrow> transaction \<times> state" where
  "StartTransaction app name s =
     (let txn = Transaction (started s)
      in (txn, record_call (StartTransactionCall app name txn) (s\<lparr>started := Suc (started s)\<rparr>)))"

definition SetWebRequest :: "transaction \<Rightarrow> WebRequest \<Rightarrow> state \<Rightarrow> state" where
  "SetWebRequest txn r s = record_call (SetWebRequestCall txn r) s"

definition NoticeError :: "transaction \<Rightarrow> go_error \<Rightarrow> state \<Rightarrow> state" where
  "NoticeError txn err s = record_call (NoticeErrorCall txn err) s"

definition SetWebResponse :: "transaction \<Rightarrow> state \<Rightarrow> state" where
  "SetWebResponse txn s = record_call (SetWebResponseCall txn) s"

definition WriteHeader :: "transaction \<Rightarrow> int \<Rightarrow> state \<Rightarrow> state" where
  "WriteHeader txn code s = record_call (WriteHeaderCall txn code) s"

definition End :: "transaction \<Rightarrow> state \<Rightarrow> state" where
  "End txn s = record_call (EndCall txn) s"

definition Next :: "next_handler \<Rightarrow> state \<Rightarrow> go_error option go_result \<times> state" where
  "Next next s =
     (let (r, c') = next (fiber s)
      in (r, record_call (NextCall (fiber s) r) (s\<lparr>fiber := c'\<rparr>)))"

text \<open>The calls made between an earlier state and a later one.\<close>

definition new_calls :: "state \<Rightarrow> state \<Rightarrow> call list" where
  "new_calls s s' = drop (length (calls s)) (calls s')"

subsection \<open>Config and New\<close>

text \<open>
  A nil \<^verbatim>\<open>Application\<close> pointer and a nil \<^verbatim>\<open>ErrorStatusCodeHandler\<close> function are
  \<open>None\<close>. A status code handler reads the context and the error, and returns a code or
  panics, as the default one does.
\<close>

record Config =
  License :: string
  AppName :: string
  Enabled :: bool
  TransportType :: string
  Application :: "newrelic_Application option"
  ErrorStatusCodeHandler :: "(fiber_ctx \<Rightarrow> go_error \<Rightarrow> int go_result) option"

definition ConfigDefault :: Config where
  "ConfigDefault =
     \<lparr>License = '''', AppName = ''fiber-api'', Enabled = False, TransportType = '''',
      Application = None, ErrorStatusCodeHandler = Some DefaultErrorStatusCodeHandler\<rparr>"

text \<open>
  The closure \<^verbatim>\<open>New\<close> returns, over the \<^verbatim>\<open>cfg\<close> and \<^verbatim>\<open>app\<close> it captured. The rest of
  the chain, which \<^verbatim>\<open>c.Next()\<close> runs, is an argument. \<open>handler_body\<close> is the function
  body after \<^verbatim>\<open>defer txn.End()\<close>; \<open>handler\<close> runs the deferred call when the body is
  left, by return or by panic. A panic can come from \<^verbatim>\<open>c.Next()\<close> and from the status
  code handler, which is called before \<^verbatim>\<open>txn.NoticeError\<close>; the statements after the
  panicking call are not run.
\<close>

definition handler_body ::
  "Config \<Rightarrow> transaction \<Rightarrow> next_handler \<Rightarrow> state \<Rightarrow> go_error option go_result \<times> state" where
  "handler_body cfg txn next s1 =
     (let scheme = URI_Scheme (fiber s1);
          s2 = SetWebRequest txn
                 \<lparr>WebRequest_Host = Hostname (fiber s1),
                  WebRequest_Method = Method (fiber s1),
                  WebRequest_Transport = transport scheme,
                  WebRequest_URL =
                    \<lparr>URL_Host = Hostname (fiber s1),
                     URL_Scheme = URI_Scheme (fiber s1),
                     URL_Path = URI_Path (fiber s1),
                     URL_RawQuery = URI_QueryString (fiber s1)\<rparr>\<rparr> s1;
          s3 = s2\<lparr>fiber := SetUserContext (NewContext (UserContext (fiber s2)) txn) (fiber s2)\<rparr>;
          (res, s4) = Next next s3
      in case res of
           Panics v \<Rightarrow> (Panics v, s4)
         | Returns handlerErr \<Rightarrow>
             (let statusCode = Response_StatusCode (fiber s4)
              in case (case handlerErr of
                         None \<Rightarrow> Returns (statusCode, s4)
                       | Some e \<Rightarrow>
                           (case ErrorStatusCodeHandler cfg of
                              None \<Rightarrow> Panics NilFuncCall
                            | Some f \<Rightarrow>
                                (case f (fiber s4) e of
                                   Panics v \<Rightarrow> Panics v
                                 | Returns code \<Rightarrow> Returns (code, NoticeError txn e s4)))) of
                   Panics v \<Rightarrow> (Panics v, s4)
                 | Returns (statusCode, s5) \<Rightarrow>
                     (Returns handlerErr, WriteHeader txn statusCode (SetWebResponse txn s5))))"

definition handler ::
  "Config \<Rightarrow> newrelic_Application \<Rightarrow> next_handler \<Rightarrow> state \<Rightarrow> go_error option go_result \<times> state" where
  "handler cfg app next s =
     (let (txn, s1) = StartTransaction app (createTransactionName (fiber s)) s;
          (r, s') = handler_body cfg txn next s1
      in (r, End txn s'))"

type_synonym fiber_Handler = "next_handler \<Rightarrow> state \<Rightarrow> go_error option go_result \<times> state"

text \<open>
  \<^verbatim>\<open>New\<close>. \<^verbatim>\<open>newrelic.NewApplication\<close> belongs to the agent and is an argument: given the
  application name, the license and the enabled flag it returns an error or a handle.
\<close>

definition license_empty_error :: go_error where
  "license_empty_error =
     ErrorString ''unable to create New Relic Application -> License can not be empty''"

definition New ::
  "(string \<Rightarrow> string \<Rightarrow> bool \<Rightarrow> go_error + newrelic_Application) \<Rightarrow> Config \<Rightarrow> fiber_Handler go_result" where
  "New NewApplication cfg0 =
     (let cfg1 = (case ErrorStatusCodeHandler cfg0 of
                    None \<Rightarrow> cfg0\<lparr>ErrorStatusCodeHandler := ErrorStatusCodeHandler ConfigDefault\<rparr>
                  | Some f \<Rightarrow> cfg0)
      in case Application cfg1 of
           Some app \<Rightarrow> Returns (handler cfg1 app)
         | None \<Rightarrow>
             (let cfg2 = (if AppName cfg1 = '''' then cfg1\<lparr>AppName := AppName ConfigDefault\<rparr> else cfg1)
              in if License cfg2 = '''' then Panics (PanicError license_empty_error)
                 else (case NewApplication (AppName cfg2) (License cfg2) (Enabled cfg2) of
                         Inl err \<Rightarrow>
                           Panics (PanicError (WrapError ''unable to create New Relic Application -> '' err))
                       | Inr app \<Rightarrow> Returns (handler cfg2 app))))"

subsection \<open>An example request\<close>

text \<open>
  A request \<^verbatim>\<open>GET https://example.com/users/42?full=1\<close>, arriving after the agent has
  already seen one transaction through; a chain that sets status 500 on the response and
  returns a \<^verbatim>\<open>*fiber.Error\<close> with code 404; a chain that returns a nil
  \<^verbatim>\<open>*fiber.Error\<close> as its error; a chain that sets status 204 and returns nil; and an
  agent whose \<^verbatim>\<open>NewApplication\<close> succeeds.
\<close>

definition example_ctx :: fiber_ctx where
  "example_ctx =
     \<lparr>Hostname = ''example.com'', Method = ''GET'', Header_Method = ''GET'',
      URI_Scheme = ''https'', URI_Path = ''/users/42'', URI_QueryString = ''full=1'',
      Response_StatusCode = 200, UserContext = Background\<rparr>"

definition example_state :: state where
  "example_state =
     \<lparr>fiber = example_ctx,
      calls = [StartTransactionCall (App 1) ''GET /'' (Transaction 0), EndCall (Transaction 0)],
      started = 1\<rparr>"

definition example_not_found :: next_handler where
  "example_not_found c =
     (Returns (Some (FiberError 404 ''Not Found'')), c\<lparr>Response_StatusCode := 500\<rparr>)"

definition example_typed_nil :: next_handler where
  "example_typed_nil c = (Returns (Some NilFiberError), c)"

definition example_no_content :: next_handler where
  "example_no_content c = (Returns None, c\<lparr>Response_StatusCode := 204\<rparr>)"

definition example_NewApplication :: "string \<Rightarrow> string \<Rightarrow> bool \<Rightarrow> go_error + newrelic_Application" where
  "example_NewApplication name license enabled = Inr (App 1)"

definition example_Config :: Config where
  "example_Config = ConfigDefault\<lparr>License := ''0123456789''\<rparr>"

section \<open>Properties\<close>

lemma HasPrefix_iff_prefix: "HasPrefix s pre \<longleftrightarrow> prefix pre s"
  by (auto simp: HasPrefix_def prefix_def intro: exI[of _ "drop (length pre) s"])
    (metis append_take_drop_id)

subsection \<open>What one run of the middleware does\<close>

text \<open>
  A handler that \<open>New\<close> returns is the closure over a configuration whose status code
  handler is set: the configured one, or the default.
\<close>

lemma New_Returns_handler:
  assumes "New na cfg = Returns h"
  obtains cfg' app where "h = handler cfg' app"
    and "ErrorStatusCodeHandler cfg' =
           Some (case ErrorStatusCodeHandler cfg of None \<Rightarrow> DefaultErrorStatusCodeHandler | Some g \<Rightarrow> g)"
  using assms
  by (auto simp: New_def ConfigDefault_def Let_def split: option.splits if_splits sum.splits)

lemma handler_body_eq:
  assumes "ErrorStatusCodeHandler cfg = Some f"
    and "next (SetUserContext (NewContext (UserContext (fiber s)) txn) (fiber s)) = (res, c')"
  shows "handler_body cfg txn next s =
     (case res of
        Returns (Some e) \<Rightarrow> (case f c' e of Panics v \<Rightarrow> Panics v | Returns code \<Rightarrow> res)
      | _ \<Rightarrow> res,
      s\<lparr>fiber := c',
        calls := calls s @
          [SetWebRequestCall txn
             \<lparr>WebRequest_Host = Hostname (fiber s),
              WebRequest_Method = Method (fiber s),
              WebRequest_Transport = transport (URI_Scheme (fiber s)),
              WebRequest_URL =
                \<lparr>URL_Host = Hostname (fiber s),
                 URL_Scheme = URI_Scheme (fiber s),
                 URL_Path = URI_Path (fiber s),
                 URL_RawQuery = URI_QueryString (fiber s)\<rparr>\<rparr>,
           NextCall (SetUserContext (NewContext (UserContext (fiber s)) txn) (fiber s)) res] @
          (case res of
             Panics v \<Rightarrow> []
           | Returns None \<Rightarrow> [SetWebResponseCall txn, WriteHeaderCall txn (Response_StatusCode c')]
           | Returns (Some e) \<Rightarrow>
               (case f c' e of
                  Panics v \<Rightarrow> []
                | Returns code \<Rightarrow>
                    [NoticeErrorCall txn e, SetWebResponseCall txn, WriteHeaderCall txn code]))\<rparr>)"
  using assms
  by (simp add: handler_body_def Next_def SetWebRequest_def NoticeError_def SetWebResponse_def
      WriteHeader_def record_call_def Let_def split: go_result.splits option.splits)

lemma handler_run:
  fixes s :: state
  defines "txn \<equiv> Transaction (started s)"
  defines "c \<equiv> SetUserContext (NewContext (UserContext (fiber s)) txn) (fiber s)"
  assumes esh: "ErrorStatusCodeHandler cfg = Some f"
    and nx: "chain c = (res, c')"
  shows "fst (handler cfg app chain s) =
          (case res of
             Returns (Some e) \<Rightarrow> (case f c' e of Panics v \<Rightarrow> Panics v | Returns code \<Rightarrow> res)
           | _ \<Rightarrow> res)"
    and "fiber (snd (handler cfg app chain s)) = c'"
    and "new_calls s (snd (handler cfg app chain s)) =
          [StartTransactionCall app (createTransactionName (fiber s)) txn,
           SetWebRequestCall txn
             \<lparr>WebRequest_Host = Hostname (fiber s),
              WebRequest_Method = Method (fiber s),
              WebRequest_Transport = transport (URI_Scheme (fiber s)),
              WebRequest_URL =
                \<lparr>URL_Host = Hostname (fiber s),
                 URL_Scheme = URI_Scheme (fiber s),
                 URL_Path = URI_Path (fiber s),
                 URL_RawQuery = URI_QueryString (fiber s)\<rparr>\<rparr>,
           NextCall c res] @
          (case res of
             Panics v \<Rightarrow> []
           | Returns None \<Rightarrow> [SetWebResponseCall txn, WriteHeaderCall txn (Response_StatusCode c')]
           | Returns (Some e) \<Rightarrow>
               (case f c' e of
                  Panics v \<Rightarrow> []
                | Returns code \<Rightarrow>
                    [NoticeErrorCall txn e, SetWebResponseCall txn, WriteHeaderCall txn code])) @
          [EndCall txn]"
proof -
  let ?s1 = "record_call (StartTransactionCall app (createTransactionName (fiber s)) txn)
               (s\<lparr>started := Suc (started s)\<rparr>)"
  have s1: "StartTransaction app (createTransactionName (fiber s)) s = (txn, ?s1)"
    by (simp add: StartTransaction_def Let_def txn_def)
  have f1: "fiber ?s1 = fiber s"
    by (simp add: record_call_def)
  have nx1: "chain (SetUserContext (NewContext (UserContext (fiber ?s1)) txn) (fiber ?s1)) = (res, c')"
    using nx by (simp add: f1 c_def)
  note body = handler_body_eq [of cfg f chain ?s1 txn res c', OF esh nx1]
  have run: "handler cfg app chain s =
      (fst (handler_body cfg txn chain ?s1), End txn (snd (handler_body cfg txn chain ?s1)))"
    by (simp add: handler_def s1 split: prod.splits)
  show "fst (handler cfg app chain s) =
          (case res of
             Returns (Some e) \<Rightarrow> (case f c' e of Panics v \<Rightarrow> Panics v | Returns code \<Rightarrow> res)
           | _ \<Rightarrow> res)"
    unfolding run body by simp
  show "fiber (snd (handler cfg app chain s)) = c'"
    unfolding run body by (simp add: End_def record_call_def)
  show "new_calls s (snd (handler cfg app chain s)) =
          [StartTransactionCall app (createTransactionName (fiber s)) txn,
           SetWebRequestCall txn
             \<lparr>WebRequest_Host = Hostname (fiber s),
              WebRequest_Method = Method (fiber s),
              WebRequest_Transport = transport (URI_Scheme (fiber s)),
              WebRequest_URL =
                \<lparr>URL_Host = Hostname (fiber s),
                 URL_Scheme = URI_Scheme (fiber s),
                 URL_Path = URI_Path (fiber s),
                 URL_RawQuery = URI_QueryString (fiber s)\<rparr>\<rparr>,
           NextCall c res] @
          (case res of
             Panics v \<Rightarrow> []
           | Returns None \<Rightarrow> [SetWebResponseCall txn, WriteHeaderCall txn (Response_StatusCode c')]
           | Returns (Some e) \<Rightarrow>
               (case f c' e of
                  Panics v \<Rightarrow> []
                | Returns code \<Rightarrow>
                    [NoticeErrorCall txn e, SetWebResponseCall txn, WriteHeaderCall txn code])) @
          [EndCall txn]"
    unfolding run body by (simp add: End_def record_call_def new_calls_def c_def)
qed

lemma handler_cong:
  assumes "ErrorStatusCodeHandler cfg1 = ErrorStatusCodeHandler cfg2"
  shows "handler cfg1 app = handler cfg2 app"
  unfolding handler_def handler_body_def assms by (rule refl)

lemma handler_starts_named_transaction:
  "filter is_StartTransaction (new_calls s (snd (handler cfg app chain s))) =
     [StartTransactionCall app (createTransactionName (fiber s)) (Transaction (started s))]"
  by (simp add: handler_def handler_body_def StartTransaction_def Next_def SetWebRequest_def
      NoticeError_def SetWebResponse_def WriteHeader_def End_def record_call_def new_calls_def
      Let_def split: prod.splits go_result.splits option.splits)

lemma Value_absent: "k \<notin> set (context_keys ctx) \<Longrightarrow> Value ctx k = None"
  by (induction ctx) auto

lemma Value_stored: "Value ctx k = Some v \<Longrightarrow> v \<in> set (context_values ctx)"
  by (induction ctx) (auto split: if_splits)

text \<open>The definitions that evaluate a run, and those of the example.\<close>

lemmas run_defs = handler_def handler_body_def StartTransaction_def Next_def SetWebRequest_def
      NoticeError_def SetWebResponse_def WriteHeader_def End_def record_call_def new_calls_def
      SetUserContext_def NewContext_def createTransactionName_def transport_def HasPrefix_def Let_def

lemmas example_defs = example_Config_def ConfigDefault_def example_state_def example_ctx_def
  example_not_found_def example_typed_nil_def example_no_content_def example_NewApplication_def

subsection \<open>The pure helpers\<close>

text \<open>
  Claim C4. For every scheme string \<open>s\<close>, \<open>transport\<close> returns \<open>TransportHTTPS\<close> if
  \<open>s\<close> has the prefix \<open>https\<close>, \<open>TransportHTTP\<close> if it has the prefix \<open>http\<close> but not
  \<open>https\<close>, and \<open>TransportUnknown\<close> otherwise. The match compares bytes, so upper case
  letters do not match: \<open>HTTPS\<close> is unknown. Anything may follow the prefix.
\<close>

theorem transport_classifies_by_prefix:
  "transport s =
     (if prefix ''https'' s then TransportHTTPS
      else if prefix ''http'' s then TransportHTTP
      else TransportUnknown)
   \<and> transport ''HTTPS'' = TransportUnknown
   \<and> transport ''Http'' = TransportUnknown
   \<and> transport (''https'' @ rest) = TransportHTTPS"
proof (intro conjI)
  show "transport s =
     (if prefix ''https'' s then TransportHTTPS
      else if prefix ''http'' s then TransportHTTP
      else TransportUnknown)"
    by (simp only: transport_def HasPrefix_iff_prefix)
  show "transport ''HTTPS'' = TransportUnknown"
    by (simp add: transport_def HasPrefix_def)
  show "transport ''Http'' = TransportUnknown"
    by (simp add: transport_def HasPrefix_def)
  show "transport (''https'' @ rest) = TransportHTTPS"
    by (simp add: transport_def HasPrefix_def)
qed

text \<open>
  Claim C5, as the code has it. \<open>DefaultErrorStatusCodeHandler\<close> returns the code of the
  error when the error is a \<^verbatim>\<open>*fiber.Error\<close> that is not nil (404 for one that carries
  404), and the status code already set on the response for every error of another type.
  The claim says so of every error; it fails on the nil \<^verbatim>\<open>*fiber.Error\<close>, where the type
  assertion succeeds and the read of \<^verbatim>\<open>Code\<close> panics.
\<close>

theorem DefaultErrorStatusCodeHandler_cases:
  "err \<noteq> NilFiberError \<Longrightarrow>
     DefaultErrorStatusCodeHandler c err =
       Returns (case err of FiberError code message \<Rightarrow> code | _ \<Rightarrow> Response_StatusCode c)
     \<and> DefaultErrorStatusCodeHandler c (FiberError 404 message) = Returns 404"
  by (cases err) simp_all

theorem DefaultErrorStatusCodeHandler_cases_witness:
  "FiberError 404 ''Not Found'' \<noteq> NilFiberError
   \<and> ErrorString ''boom'' \<noteq> NilFiberError
   \<and> DefaultErrorStatusCodeHandler example_ctx (FiberError 404 ''Not Found'') = Returns 404
   \<and> DefaultErrorStatusCodeHandler example_ctx (ErrorString ''boom'') = Returns 200"
  using DefaultErrorStatusCodeHandler_cases [of "FiberError 404 ''Not Found''" example_ctx]
    DefaultErrorStatusCodeHandler_cases [of "ErrorString ''boom''" example_ctx]
  by (simp add: example_ctx_def)

text \<open>
  The input the claim fails on: a nil \<^verbatim>\<open>*fiber.Error\<close> carries no code, and the result
  is not the status code of the response but a panic.
\<close>

theorem DefaultErrorStatusCodeHandler_typed_nil_counterexample:
  "DefaultErrorStatusCodeHandler example_ctx NilFiberError = Panics NilDereference
   \<and> DefaultErrorStatusCodeHandler example_ctx NilFiberError \<noteq> Returns (Response_StatusCode example_ctx)"
  by simp

text \<open>
  Claim C10. The code of a \<^verbatim>\<open>*fiber.Error\<close> is found by a type assertion on the error
  itself, never by unwrapping: for an error that wraps a \<^verbatim>\<open>*fiber.Error\<close> the result is
  the status code of the response, whatever code the wrapped error has. With 200 set on
  the response, a wrapped 404 gives 200.
\<close>

theorem DefaultErrorStatusCodeHandler_does_not_unwrap:
  "DefaultErrorStatusCodeHandler c (WrapError text (FiberError code message)) =
     Returns (Response_StatusCode c)
   \<and> DefaultErrorStatusCodeHandler (c\<lparr>Response_StatusCode := 200\<rparr>)
        (WrapError ''lookup: '' (FiberError 404 ''Not Found'')) = Returns 200"
  by simp

subsection \<open>Construction\<close>

text \<open>
  Claim C3. With no \<open>Application\<close> and an empty \<open>License\<close>, \<open>New\<close> panics with the
  error that says the license can not be empty, and returns no handler. With an
  \<open>Application\<close>, or with a \<open>License\<close> that is not empty, it does not panic with that
  error: given an \<open>Application\<close> it returns a handler; given only a \<open>License\<close> it
  returns a handler unless \<^verbatim>\<open>newrelic.NewApplication\<close> itself fails, which is a panic
  with a different error, one that wraps the agent's.
\<close>

theorem New_license_check:
  "(Application cfg = None \<and> License cfg = '''' \<longrightarrow>
      New NewApplication cfg = Panics (PanicError license_empty_error))
   \<and> (Application cfg \<noteq> None \<or> License cfg \<noteq> '''' \<longrightarrow>
      New NewApplication cfg \<noteq> Panics (PanicError license_empty_error))
   \<and> (Application cfg \<noteq> None \<longrightarrow> (\<exists>h. New NewApplication cfg = Returns h))
   \<and> (Application cfg = None \<and> License cfg \<noteq> '''' \<longrightarrow>
        (\<exists>h. New NewApplication cfg = Returns h) \<or>
        (\<exists>err. New NewApplication cfg =
                 Panics (PanicError (WrapError ''unable to create New Relic Application -> '' err))))"
  by (auto simp: New_def Let_def license_empty_error_def split: option.splits sum.splits)

theorem New_license_check_witness:
  "New (\<lambda>name license enabled. Inr (App 1)) ConfigDefault = Panics (PanicError license_empty_error)
   \<and> New (\<lambda>name license enabled. Inr (App 1)) (ConfigDefault\<lparr>License := ''0123456789''\<rparr>)
        \<noteq> Panics (PanicError license_empty_error)
   \<and> (\<exists>h. New (\<lambda>name license enabled. Inl (ErrorString ''no agent''))
             (ConfigDefault\<lparr>Application := Some (App 2)\<rparr>) = Returns h)"
  using New_license_check [of ConfigDefault "\<lambda>name license enabled. Inr (App 1)"]
    New_license_check [of "ConfigDefault\<lparr>License := ''0123456789''\<rparr>" "\<lambda>name license enabled. Inr (App 1)"]
    New_license_check [of "ConfigDefault\<lparr>Application := Some (App 2)\<rparr>"
       "\<lambda>name license enabled. Inl (ErrorString ''no agent'')"]
  by (simp add: ConfigDefault_def)

subsection \<open>The middleware\<close>

text \<open>
  Claim C6. The name of the transaction is the method of the request and its path with
  one space between them: \<open>createTransactionName\<close> joins the two, \<open>GET\<close> and
  \<open>/users/42\<close> give \<open>GET /users/42\<close>, and every run of the middleware starts exactly one
  transaction, under that name.
\<close>

theorem transaction_name_is_method_and_path:
  "createTransactionName c = Header_Method c @ '' '' @ URI_Path c
   \<and> createTransactionName (c\<lparr>Header_Method := ''GET'', URI_Path := ''/users/42''\<rparr>) = ''GET /users/42''
   \<and> filter is_StartTransaction (new_calls s (snd (handler cfg app chain s))) =
       [StartTransactionCall app (Header_Method (fiber s) @ '' '' @ URI_Path (fiber s))
          (Transaction (started s))]"
  using handler_starts_named_transaction [of s cfg app chain]
  by (simp add: createTransactionName_def)

text \<open>
  Claim C1, as the code has it. When \<^verbatim>\<open>c.Next()\<close> returns an error \<open>e\<close> that is not nil
  and the status code handler of the configuration (the default one when none is
  configured) returns a code for the context and \<open>e\<close>, the handler made by \<open>New\<close> calls
  \<^verbatim>\<open>NoticeError\<close> on the transaction of this request once, with \<open>e\<close>; it returns \<open>e\<close>
  itself; and the one status code it writes with \<^verbatim>\<open>SetWebResponse(nil).WriteHeader\<close> is
  that code, whatever status the response carries. The claim says so of every such run; the
  status code handler is called first, and when it panics none of the three happens.
\<close>

theorem handler_error_is_noticed_reported_and_returned:
  assumes "New NewApplication cfg = Returns h"
    and "NextCall c (Returns (Some e)) \<in> set (new_calls s (snd (h chain s)))"
    and "(case ErrorStatusCodeHandler cfg of
            None \<Rightarrow> DefaultErrorStatusCodeHandler
          | Some f \<Rightarrow> f) (fiber (snd (h chain s))) e = Returns code"
  shows "fst (h chain s) = Returns (Some e)
       \<and> filter is_NoticeError (new_calls s (snd (h chain s))) =
           [NoticeErrorCall (Transaction (started s)) e]
       \<and> filter (\<lambda>x. is_SetWebResponse x \<or> is_WriteHeader x) (new_calls s (snd (h chain s))) =
           [SetWebResponseCall (Transaction (started s)),
            WriteHeaderCall (Transaction (started s)) code]"
proof -
  let ?f = "case ErrorStatusCodeHandler cfg of None \<Rightarrow> DefaultErrorStatusCodeHandler | Some f \<Rightarrow> f"
  let ?c = "SetUserContext (NewContext (UserContext (fiber s)) (Transaction (started s))) (fiber s)"
  from assms(1) obtain cfg' app where h: "h = handler cfg' app"
    and esh: "ErrorStatusCodeHandler cfg' = Some ?f"
    by (rule New_Returns_handler)
  obtain res c' where nx: "chain ?c = (res, c')"
    by (cases "chain ?c")
  note run = handler_run [where chain = chain and s = s and app = app, OF esh nx]
  have res: "res = Returns (Some e)"
    using assms(2) unfolding h run(3) by (auto split: go_result.splits option.splits)
  have code: "?f c' e = Returns code"
    using assms(3) unfolding h run(2) .
  show ?thesis
    unfolding h run res by (simp add: code)
qed

text \<open>
  In the example the chain sets 500 on the response and returns a 404 error: 404 is
  written to the transaction, the 404 error is noticed and returned, and the response
  still says 500.
\<close>

theorem handler_error_is_noticed_reported_and_returned_witness:
  "New example_NewApplication example_Config = Returns (handler example_Config (App 1))
   \<and> NextCall (example_ctx\<lparr>UserContext := NewContext Background (Transaction 1)\<rparr>)
         (Returns (Some (FiberError 404 ''Not Found'')))
       \<in> set (new_calls example_state (snd (handler example_Config (App 1) example_not_found example_state)))
   \<and> DefaultErrorStatusCodeHandler
         (fiber (snd (handler example_Config (App 1) example_not_found example_state)))
         (FiberError 404 ''Not Found'') = Returns 404
   \<and> fst (handler example_Config (App 1) example_not_found example_state) =
       Returns (Some (FiberError 404 ''Not Found''))
   \<and> filter is_NoticeError
         (new_calls example_state (snd (handler example_Config (App 1) example_not_found example_state))) =
       [NoticeErrorCall (Transaction 1) (FiberError 404 ''Not Found'')]
   \<and> filter (\<lambda>x. is_SetWebResponse x \<or> is_WriteHeader x)
         (new_calls example_state (snd (handler example_Config (App 1) example_not_found example_state))) =
       [SetWebResponseCall (Transaction 1), WriteHeaderCall (Transaction 1) 404]
   \<and> Response_StatusCode (fiber (snd (handler example_Config (App 1) example_not_found example_state))) = 500"
proof -
  have new: "New example_NewApplication example_Config = Returns (handler example_Config (App 1))"
    by (simp add: New_def example_defs)
  have nx: "NextCall (example_ctx\<lparr>UserContext := NewContext Background (Transaction 1)\<rparr>)
         (Returns (Some (FiberError 404 ''Not Found'')))
       \<in> set (new_calls example_state (snd (handler example_Config (App 1) example_not_found example_state)))"
    by (simp add: run_defs example_defs)
  have st: "Response_StatusCode (fiber (snd (handler example_Config (App 1) example_not_found example_state))) = 500"
    by (simp add: run_defs example_defs)
  have esh: "ErrorStatusCodeHandler example_Config = Some DefaultErrorStatusCodeHandler"
    by (simp add: example_defs)
  have code: "(case ErrorStatusCodeHandler example_Config of
                 None \<Rightarrow> DefaultErrorStatusCodeHandler
               | Some f \<Rightarrow> f)
         (fiber (snd (handler example_Config (App 1) example_not_found example_state)))
         (FiberError 404 ''Not Found'') = Returns 404"
    by (simp add: esh)
  have started: "started example_state = 1"
    by (simp add: example_defs)
  show ?thesis
    using handler_error_is_noticed_reported_and_returned [OF new nx code] new nx st
    by (simp add: started)
qed

text \<open>
  The run the claim fails on: the default status code handler and a chain that returns a
  nil \<^verbatim>\<open>*fiber.Error\<close>. The chain has returned an error that is not nil, the status code
  handler panics on it, and the handler panics with it: the error is not returned,
  \<^verbatim>\<open>NoticeError\<close> is not called, and no status code is written.
\<close>

theorem handler_error_typed_nil_counterexample:
  "New example_NewApplication example_Config = Returns (handler example_Config (App 1))
   \<and> NextCall (example_ctx\<lparr>UserContext := NewContext Background (Transaction 1)\<rparr>)
         (Returns (Some NilFiberError))
       \<in> set (new_calls example_state (snd (handler example_Config (App 1) example_typed_nil example_state)))
   \<and> fst (handler example_Config (App 1) example_typed_nil example_state) = Panics NilDereference
   \<and> fst (handler example_Config (App 1) example_typed_nil example_state) \<noteq> Returns (Some NilFiberError)
   \<and> filter is_NoticeError
         (new_calls example_state (snd (handler example_Config (App 1) example_typed_nil example_state))) = []
   \<and> filter (\<lambda>x. is_SetWebResponse x \<or> is_WriteHeader x)
         (new_calls example_state (snd (handler example_Config (App 1) example_typed_nil example_state))) = []"
proof -
  have new: "New example_NewApplication example_Config = Returns (handler example_Config (App 1))"
    by (simp add: New_def example_defs)
  have run: "handler example_Config (App 1) example_typed_nil example_state =
    (Panics NilDereference,
     \<lparr>fiber = example_ctx\<lparr>UserContext := NewContext Background (Transaction 1)\<rparr>,
      calls = calls example_state @
        [StartTransactionCall (App 1) ''GET /users/42'' (Transaction 1),
         SetWebRequestCall (Transaction 1)
           \<lparr>WebRequest_Host = ''example.com'', WebRequest_Method = ''GET'',
            WebRequest_Transport = TransportHTTPS,
            WebRequest_URL =
              \<lparr>URL_Host = ''example.com'', URL_Scheme = ''https'',
               URL_Path = ''/users/42'', URL_RawQuery = ''full=1''\<rparr>\<rparr>,
         NextCall (example_ctx\<lparr>UserContext := NewContext Background (Transaction 1)\<rparr>)
           (Returns (Some NilFiberError)),
         EndCall (Transaction 1)],
      started = 2\<rparr>)"
    by (simp add: run_defs example_defs)
  show ?thesis
    unfolding run by (simp add: new new_calls_def)
qed




subsection \<open>FromContext\<close>

text \<open>
  Claim C7. \<open>FromContext\<close> only looks the transaction up. On a context whose user context
  holds nothing under the agent's key, as one that never went through the middleware (the
  user context of a new request is \<^verbatim>\<open>context.Background()\<close>), it returns nil. A
  transaction it returns is one that the user context holds: it creates none, and as a
  function of the context alone it has no effect. The context that a handler made by
  \<open>New\<close> hands to \<^verbatim>\<open>c.Next()\<close> yields the transaction that this run started; so
  does the context after the run, when the chain leaves the user context as it found it.
\<close>

theorem FromContext_is_lookup:
  "(TransactionContextKey \<notin> set (context_keys (UserContext c)) \<longrightarrow> FromContext c = None)
   \<and> FromContext (c\<lparr>UserContext := Background\<rparr>) = None
   \<and> (FromContext c = Some t \<longrightarrow> TransactionValue t \<in> set (context_values (UserContext c)))
   \<and> (\<forall>h c1 r. New NewApplication cfg = Returns h \<longrightarrow>
         NextCall c1 r \<in> set (new_calls s (snd (h chain s))) \<longrightarrow>
           FromContext c1 = Some (Transaction (started s))
         \<and> (\<exists>app name. filter is_StartTransaction (new_calls s (snd (h chain s))) =
                 [StartTransactionCall app name (Transaction (started s))]))
   \<and> (\<forall>h. New NewApplication cfg = Returns h \<longrightarrow>
         (\<forall>x. UserContext (snd (chain x)) = UserContext x) \<longrightarrow>
           FromContext (fiber (snd (h chain s))) = Some (Transaction (started s)))"
proof (intro conjI allI impI)
  show "FromContext c = None" if "TransactionContextKey \<notin> set (context_keys (UserContext c))"
    using Value_absent [OF that] by (simp add: FromContext_def newrelic_FromContext_def)
  show "FromContext (c\<lparr>UserContext := Background\<rparr>) = None"
    by (simp add: FromContext_def newrelic_FromContext_def)
  show "TransactionValue t \<in> set (context_values (UserContext c))" if "FromContext c = Some t"
    using that Value_stored [of "UserContext c" TransactionContextKey]
    by (auto simp: FromContext_def newrelic_FromContext_def split: option.splits context_value.splits)
next
  fix h c1 r
  let ?c = "SetUserContext (NewContext (UserContext (fiber s)) (Transaction (started s))) (fiber s)"
  assume new: "New NewApplication cfg = Returns h"
    and call: "NextCall c1 r \<in> set (new_calls s (snd (h chain s)))"
  from new obtain cfg' app f where h: "h = handler cfg' app"
    and esh: "ErrorStatusCodeHandler cfg' = Some f"
    by (auto elim: New_Returns_handler)
  obtain res c' where nx: "chain ?c = (res, c')"
    by (cases "chain ?c")
  note run = handler_run [where chain = chain and s = s and app = app, OF esh nx]
  have "c1 = ?c"
    using call unfolding h run(3) by (auto split: go_result.splits option.splits)
  then show "FromContext c1 = Some (Transaction (started s))"
    by (simp add: FromContext_def newrelic_FromContext_def SetUserContext_def NewContext_def)
  show "\<exists>app name. filter is_StartTransaction (new_calls s (snd (h chain s))) =
                 [StartTransactionCall app name (Transaction (started s))]"
    unfolding h run(3) by (simp split: go_result.splits option.splits)
next
  fix h
  let ?c = "SetUserContext (NewContext (UserContext (fiber s)) (Transaction (started s))) (fiber s)"
  assume new: "New NewApplication cfg = Returns h"
    and keep: "\<forall>x. UserContext (snd (chain x)) = UserContext x"
  from new obtain cfg' app f where h: "h = handler cfg' app"
    and esh: "ErrorStatusCodeHandler cfg' = Some f"
    by (auto elim: New_Returns_handler)
  obtain res c' where nx: "chain ?c = (res, c')"
    by (cases "chain ?c")
  note run = handler_run [where chain = chain and s = s and app = app, OF esh nx]
  have "UserContext c' = UserContext ?c"
    using keep [rule_format, of ?c] by (simp add: nx)
  then show "FromContext (fiber (snd (h chain s))) = Some (Transaction (started s))"
    unfolding h run(2)
    by (simp add: FromContext_def newrelic_FromContext_def SetUserContext_def NewContext_def)
qed

theorem FromContext_is_lookup_witness:
  "TransactionContextKey \<notin> set (context_keys (UserContext example_ctx))
   \<and> FromContext example_ctx = None
   \<and> FromContext (example_ctx\<lparr>UserContext := NewContext Background (Transaction 1)\<rparr>) = Some (Transaction 1)
   \<and> TransactionValue (Transaction 1) \<in> set (context_values (NewContext Background (Transaction 1)))
   \<and> New example_NewApplication example_Config = Returns (handler example_Config (App 1))
   \<and> NextCall (example_ctx\<lparr>UserContext := NewContext Background (Transaction 1)\<rparr>) (Returns None)
       \<in> set (new_calls example_state (snd (handler example_Config (App 1) example_no_content example_state)))
   \<and> (\<forall>x. UserContext (snd (example_no_content x)) = UserContext x)
   \<and> FromContext (fiber (snd (handler example_Config (App 1) example_no_content example_state))) =
       Some (Transaction 1)"
proof -
  have absent: "TransactionContextKey \<notin> set (context_keys (UserContext example_ctx))"
    by (simp add: example_defs)
  have present: "FromContext (example_ctx\<lparr>UserContext := NewContext Background (Transaction 1)\<rparr>) =
      Some (Transaction 1)"
    by (simp add: FromContext_def newrelic_FromContext_def NewContext_def)
  have new: "New example_NewApplication example_Config = Returns (handler example_Config (App 1))"
    by (simp add: New_def example_defs)
  have call: "NextCall (example_ctx\<lparr>UserContext := NewContext Background (Transaction 1)\<rparr>) (Returns None)
       \<in> set (new_calls example_state (snd (handler example_Config (App 1) example_no_content example_state)))"
    by (simp add: run_defs example_defs)
  have keep: "\<forall>x. UserContext (snd (example_no_content x)) = UserContext x"
    by (simp add: example_defs)
  have started: "started example_state = 1"
    by (simp add: example_defs)
  show ?thesis
    using FromContext_is_lookup [of example_ctx "Transaction 1" example_NewApplication example_Config
        example_state example_no_content]
      FromContext_is_lookup [of "example_ctx\<lparr>UserContext := NewContext Background (Transaction 1)\<rparr>"
        "Transaction 1" example_NewApplication example_Config example_state example_no_content]
      absent present new call keep
    by (simp add: started)
qed

subsection \<open>Configuration fields that are not read\<close>

text \<open>
  Claim C8. When an \<open>Application\<close> is given, \<open>License\<close> and \<open>AppName\<close> are not looked
  at. Two configurations with the same \<open>Application\<close> and the same
  \<open>ErrorStatusCodeHandler\<close> give the same handler (equal as functions: the same result
  and the same final state for every chain and every state), whatever their other fields
  are and whatever \<^verbatim>\<open>newrelic.NewApplication\<close> would do, since it is not called. \<open>New\<close>
  returns a handler also when \<open>License\<close> is empty: nothing checks it.
\<close>

theorem injected_Application_ignores_License_and_AppName:
  assumes "Application cfg1 = Some app"
    and "Application cfg2 = Some app"
    and "ErrorStatusCodeHandler cfg1 = ErrorStatusCodeHandler cfg2"
  shows "New NewApplication1 cfg1 = New NewApplication2 cfg2
       \<and> (\<exists>h. New NewApplication1 cfg1 = Returns h)
       \<and> (\<exists>h. New NewApplication1 (cfg1\<lparr>License := ''''\<rparr>) = Returns h)"
proof -
  let ?d = "\<lambda>cfg. case ErrorStatusCodeHandler cfg of
                    None \<Rightarrow> cfg\<lparr>ErrorStatusCodeHandler := ErrorStatusCodeHandler ConfigDefault\<rparr>
                  | Some f \<Rightarrow> cfg"
  have app: "Application (?d cfg) = Application cfg" for cfg
    by (simp split: option.splits)
  have new: "New na cfg = Returns (handler (?d cfg) app)" if "Application cfg = Some app" for na cfg
    using that by (simp add: New_def Let_def app)
  have "ErrorStatusCodeHandler (?d cfg1) = ErrorStatusCodeHandler (?d cfg2)"
    using assms(3) by (simp split: option.splits)
  then have "handler (?d cfg1) app = handler (?d cfg2) app"
    by (rule handler_cong)
  then show ?thesis
    using assms by (simp add: new)
qed

theorem injected_Application_ignores_License_and_AppName_witness:
  "Application (ConfigDefault\<lparr>Application := Some (App 2)\<rparr>) = Some (App 2)
   \<and> License (ConfigDefault\<lparr>Application := Some (App 2)\<rparr>) = ''''
   \<and> New example_NewApplication (ConfigDefault\<lparr>Application := Some (App 2)\<rparr>) =
       New (\<lambda>name license enabled. Inl (ErrorString ''no agent''))
         (ConfigDefault\<lparr>Application := Some (App 2), License := ''0123456789'', AppName := ''billing''\<rparr>)
   \<and> (\<exists>h. New example_NewApplication (ConfigDefault\<lparr>Application := Some (App 2)\<rparr>) = Returns h)"
proof -
  let ?a = "ConfigDefault\<lparr>Application := Some (App 2)\<rparr>"
  let ?b = "ConfigDefault\<lparr>Application := Some (App 2), License := ''0123456789'', AppName := ''billing''\<rparr>"
  have a: "Application ?a = Some (App 2)" and b: "Application ?b = Some (App 2)"
    and e: "ErrorStatusCodeHandler ?a = ErrorStatusCodeHandler ?b"
    by simp_all
  have l: "License ?a = ''''"
    by (simp add: ConfigDefault_def)
  from injected_Application_ignores_License_and_AppName
      [where ?NewApplication1.0 = example_NewApplication
         and ?NewApplication2.0 = "\<lambda>name license enabled. Inl (ErrorString ''no agent'')", OF a b e] a l
  show ?thesis
    by blast
qed

text \<open>
  Claim C9. \<open>TransportType\<close> has no effect. Changing it changes neither whether \<open>New\<close>
  panics nor the handler it returns, and in every run of such a handler the one web request
  given to the transaction carries the transport that \<open>transport\<close> computes from the
  scheme of the request URI.
\<close>

theorem TransportType_field_is_ignored:
  "New NewApplication (cfg\<lparr>TransportType := t\<rparr>) = New NewApplication cfg
   \<and> (\<forall>h. New NewApplication cfg = Returns h \<longrightarrow>
        (\<exists>txn r. filter is_SetWebRequest (new_calls s (snd (h chain s))) = [SetWebRequestCall txn r]
               \<and> WebRequest_Transport r = transport (URI_Scheme (fiber s))))"
proof (intro conjI allI impI)
  show "New NewApplication (cfg\<lparr>TransportType := t\<rparr>) = New NewApplication cfg"
    by (auto simp: New_def Let_def split: option.splits sum.splits intro!: handler_cong)
next
  fix h
  assume "New NewApplication cfg = Returns h"
  then obtain cfg' app f where h: "h = handler cfg' app" and esh: "ErrorStatusCodeHandler cfg' = Some f"
    by (auto elim: New_Returns_handler)
  obtain res c' where nx: "chain (SetUserContext (NewContext (UserContext (fiber s)) (Transaction (started s))) (fiber s)) = (res, c')"
    by (cases "chain (SetUserContext (NewContext (UserContext (fiber s)) (Transaction (started s))) (fiber s))")
  show "\<exists>txn r. filter is_SetWebRequest (new_calls s (snd (h chain s))) = [SetWebRequestCall txn r]
               \<and> WebRequest_Transport r = transport (URI_Scheme (fiber s))"
    unfolding h handler_run(3) [where chain = chain and s = s, OF esh nx]
    by (simp split: go_result.splits option.splits)
qed

theorem TransportType_field_is_ignored_witness:
  "New example_NewApplication (example_Config\<lparr>TransportType := ''HTTP''\<rparr>) =
     New example_NewApplication example_Config
   \<and> New example_NewApplication example_Config = Returns (handler example_Config (App 1))
   \<and> (\<exists>txn r. filter is_SetWebRequest
          (new_calls example_state (snd (handler example_Config (App 1) example_no_content example_state))) =
            [SetWebRequestCall txn r]
        \<and> WebRequest_Transport r = TransportHTTPS)"
proof -
  have new: "New example_NewApplication example_Config = Returns (handler example_Config (App 1))"
    by (simp add: New_def example_defs)
  have tr: "transport (URI_Scheme (fiber example_state)) = TransportHTTPS"
    by (simp add: transport_def HasPrefix_def example_defs)
  show ?thesis
    using TransportType_field_is_ignored [where NewApplication = example_NewApplication
        and cfg = example_Config and t = "''HTTP''" and s = example_state
        and chain = example_no_content] new
    by (simp add: tr)
qed

end
